theory Spec2Isabelle
  imports Main "HOL-Library.Multiset" "HOL-Library.Char_ord" "HOL-Library.List_Lexorder"
    "HOL-Library.Product_Lexorder"
begin

section \<open>Values and exceptions\<close>

text \<open>
  A cell of a text column as \<open>pandas.read_csv\<close> yields it: a Python string, or the
  missing-value marker NaN. A Python \<open>str\<close> is a \<^typ>\<open>string\<close>: the bytes of its UTF-8
  encoding, whose lexicographic order is the code-point order Python compares strings by.
\<close>

datatype cell = NaN | Str string

text \<open>The exceptions the program can meet; \<open>SystemExit n\<close> is \<open>sys.exit(n)\<close>.\<close>

datatype error =
    ValueError
  | KeyError string
  | NotADirectoryError
  | JSONDecodeError
  | SystemExit nat

text \<open>\<open>pd.notna(text)\<close> and \<open>str(text)\<close>.\<close>

fun notna :: "cell \<Rightarrow> bool" where
  "notna NaN = False"
| "notna (Str s) = True"

fun str :: "cell \<Rightarrow> string" where
  "str NaN = ''nan''"
| "str (Str s) = s"

text \<open>
  \<open>str.isspace\<close> on the ASCII range: tab, line feed, vertical tab, form feed, carriage
  return, the four separators \<open>0x1c\<close> to \<open>0x1f\<close>, and the space. \<open>str.strip()\<close> drops the
  whitespace at both ends.
\<close>

definition isspace :: "char \<Rightarrow> bool" where
  "isspace c = (let n = (of_char c :: nat) in (9 \<le> n \<and> n \<le> 13) \<or> (28 \<le> n \<and> n \<le> 32))"

definition strip :: "string \<Rightarrow> string" where
  "strip s = rev (dropWhile isspace (rev (dropWhile isspace s)))"

text \<open>The guard \<open>pd.notna(text) and str(text).strip() != ""\<close> of lines 112 and 144.\<close>

definition translatable :: "cell \<Rightarrow> bool" where
  "translatable text = (notna text \<and> strip (str text) \<noteq> [])"

section \<open>The latest-file locator\<close>

text \<open>
  The file system as \<open>get_latest_file\<close> sees it: the paths that exist, each a regular file
  or a directory with the names \<open>os.listdir\<close> returns, in the order it returns them.
\<close>

datatype fs_entry = RegularFile | Directory "string list"

type_synonym filesystem = "(string \<times> fs_entry) list"

text \<open>
  \<open>file_pattern\<close> is \<open>project_(\d{4}-\d{2}-\d{2})\.csv\<close>. \<open>date_shape\<close> is its group, with
  \<open>\d\<close> read on the ASCII digits; \<open>match_here\<close> matches the pattern at the start of a string
  and returns the group; \<open>re_search\<close> is \<open>re.search\<close>: the leftmost match, anywhere in the
  file name.
\<close>

definition isdigit :: "char \<Rightarrow> bool" where
  "isdigit c = (c \<in> set ''0123456789'')"

fun date_shape :: "string \<Rightarrow> bool" where
  "date_shape [y1, y2, y3, y4, a, m1, m2, b, d1, d2] =
     (isdigit y1 \<and> isdigit y2 \<and> isdigit y3 \<and> isdigit y4 \<and> a = CHR ''-'' \<and>
      isdigit m1 \<and> isdigit m2 \<and> b = CHR ''-'' \<and> isdigit d1 \<and> isdigit d2)"
| "date_shape s = False"

definition match_here :: "string \<Rightarrow> string option" where
  "match_here s =
     (if take 8 s = ''project_'' \<and> date_shape (take 10 (drop 8 s)) \<and> take 4 (drop 18 s) = ''.csv''
      then Some (take 10 (drop 8 s)) else None)"

fun re_search :: "string \<Rightarrow> string option" where
  "re_search [] = None"
| "re_search (c # cs) =
     (case match_here (c # cs) of Some g \<Rightarrow> Some g | None \<Rightarrow> re_search cs)"

text \<open>
  \<open>datetime.strptime(s, "%Y-%m-%d")\<close> on a string of the group's shape: the date, or
  \<open>ValueError\<close> when the year is 0, the month is not 1 to 12, or the day is not a day of
  that month. A \<open>datetime\<close> at midnight is its year, month and day, compared in that order.
\<close>

type_synonym date = "nat \<times> nat \<times> nat"

definition digit_val :: "char \<Rightarrow> nat" where
  "digit_val c = of_char c - 48"

definition int_of_digits :: "string \<Rightarrow> nat" where
  "int_of_digits ds = foldl (\<lambda>n c. 10 * n + digit_val c) 0 ds"

definition is_leap :: "nat \<Rightarrow> bool" where
  "is_leap y = (y mod 4 = 0 \<and> (y mod 100 \<noteq> 0 \<or> y mod 400 = 0))"

definition days_in_month :: "nat \<Rightarrow> nat \<Rightarrow> nat" where
  "days_in_month y m =
     (if m = 2 then (if is_leap y then 29 else 28)
      else if m = 4 \<or> m = 6 \<or> m = 9 \<or> m = 11 then 30 else 31)"

definition strptime :: "string \<Rightarrow> error + date" where
  "strptime s =
     (let y = int_of_digits (take 4 s);
          m = int_of_digits (take 2 (drop 5 s));
          d = int_of_digits (take 2 (drop 8 s))
      in if 1 \<le> y \<and> 1 \<le> m \<and> m \<le> 12 \<and> 1 \<le> d \<and> d \<le> days_in_month y m
         then Inr (y, m, d) else Inl ValueError)"

text \<open>\<open>os.path.join\<close> of two components (POSIX).\<close>

definition path_join :: "string \<Rightarrow> string \<Rightarrow> string" where
  "path_join a b =
     (if take 1 b = ''/'' then b
      else if a = [] \<or> drop (length a - 1) a = ''/'' then a @ b
      else a @ ''/'' @ b)"

text \<open>
  The loop of lines 36 to 45 over the names still to visit, with \<open>latest_date\<close> and
  \<open>latest_file\<close> as they stand; the exception of \<open>strptime\<close> is not caught and ends it.
\<close>

fun scan_files ::
  "string \<Rightarrow> string list \<Rightarrow> date option \<Rightarrow> string option \<Rightarrow> error + string option" where
  "scan_files folder_path [] latest_date latest_file = Inr latest_file"
| "scan_files folder_path (filename # rest) latest_date latest_file =
     (case re_search filename of
        None \<Rightarrow> scan_files folder_path rest latest_date latest_file
      | Some file_date_str \<Rightarrow>
          (case strptime file_date_str of
             Inl e \<Rightarrow> Inl e
           | Inr file_date \<Rightarrow>
               (if (case latest_date of None \<Rightarrow> True | Some d \<Rightarrow> file_date > d)
                then scan_files folder_path rest (Some file_date)
                       (Some (path_join folder_path filename))
                else scan_files folder_path rest latest_date latest_file)))"

definition get_latest_file :: "filesystem \<Rightarrow> string \<Rightarrow> error + string option" where
  "get_latest_file fs folder_path =
     (case map_of fs folder_path of
        None \<Rightarrow> Inr None
      | Some RegularFile \<Rightarrow> Inl NotADirectoryError
      | Some (Directory names) \<Rightarrow> scan_files folder_path names None None)"

text \<open>
  The date a file name embeds, when the pattern finds one and it is a calendar date; and
  the file names in which the pattern finds a date that is no calendar date.
\<close>

definition embedded_date :: "string \<Rightarrow> date option" where
  "embedded_date filename =
     (case re_search filename of
        None \<Rightarrow> None
      | Some g \<Rightarrow> (case strptime g of Inl e \<Rightarrow> None | Inr d \<Rightarrow> Some d))"

definition invalid_date_name :: "string \<Rightarrow> bool" where
  "invalid_date_name filename =
     (case re_search filename of
        None \<Rightarrow> False
      | Some g \<Rightarrow> (case strptime g of Inl e \<Rightarrow> True | Inr d \<Rightarrow> False))"

section \<open>The configuration store\<close>

text \<open>
  \<open>user_config.json\<close>: absent, present with content that \<open>json.load\<close> rejects, or present
  with a JSON object. The values the program stores are strings or \<open>null\<close>.
\<close>

datatype json = JNull | JString string

type_synonym config = "string \<rightharpoonup> json"

datatype config_file = NoFile | Unparsable | Stored config

definition load_config :: "config_file \<Rightarrow> error + config" where
  "load_config file =
     (case file of
        Stored config \<Rightarrow> Inr config
      | Unparsable \<Rightarrow> Inl JSONDecodeError
      | NoFile \<Rightarrow> Inr (Map.empty(''email'' \<mapsto> JNull, ''credential_file'' \<mapsto> JNull)))"

text \<open>
  An argument of \<open>save_config\<close> is \<open>None\<close> or a string; it is truthy when it is a string that
  is not empty. \<open>Inl\<close> is an exception raised before the file is opened for writing, which
  leaves the file as it was.
\<close>

fun truthy :: "string option \<Rightarrow> bool" where
  "truthy None = False"
| "truthy (Some s) = (s \<noteq> [])"

fun assign_if_truthy :: "string \<Rightarrow> string option \<Rightarrow> config \<Rightarrow> config" where
  "assign_if_truthy k None config = config"
| "assign_if_truthy k (Some s) config = (if s \<noteq> [] then config(k \<mapsto> JString s) else config)"

definition save_config :: "string option \<Rightarrow> string option \<Rightarrow> config_file \<Rightarrow> error + config_file" where
  "save_config email credential_file file =
     (case load_config file of
        Inl e \<Rightarrow> Inl e
      | Inr config \<Rightarrow>
          Inr (Stored (assign_if_truthy ''credential_file'' credential_file
                        (assign_if_truthy ''email'' email config))))"

section \<open>Translator\<close>

text \<open>
  \<open>Translator._cache\<close> is a dictionary keyed by \<open>(text, src_lang, target_lang)\<close>. The state
  also logs the requests sent to the translation provider, in order, so that provider calls
  can be counted.

  The provider (\<open>GoogleTranslator(...).translate\<close>) is external: it is a parameter, a function
  of the requests made so far and of the present request, returning the translation or \<open>None\<close>
  when the call raises.
\<close>

type_synonym key = "cell \<times> string \<times> string"

record translator =
  cache :: "key \<rightharpoonup> cell"
  calls :: "key list"

type_synonym provider = "key list \<Rightarrow> key \<Rightarrow> string option"

definition translate_text ::
  "provider \<Rightarrow> cell \<Rightarrow> string \<Rightarrow> string \<Rightarrow> translator \<Rightarrow> cell \<times> translator" where
  "translate_text prov text src_lang target_lang st =
     (if translatable text then
        (let k = (text, src_lang, target_lang) in
         case cache st k of
           Some v \<Rightarrow> (v, st)
         | None \<Rightarrow>
             (case prov (calls st) k of
                Some translated \<Rightarrow>
                  (Str translated,
                   st\<lparr>cache := (cache st)(k \<mapsto> Str translated), calls := calls st @ [k]\<rparr>)
              | None \<Rightarrow> (text, st\<lparr>calls := calls st @ [k]\<rparr>)))
      else (text, st))"

section \<open>DataProcessor: batch translation\<close>

text \<open>
  \<open>executor.map\<close> returns the results in the order of its inputs. The worker pool is
  modelled by the schedule that runs the calls one after the other in that order, each on
  the translator state the previous one left.
\<close>

fun executor_map ::
  "(cell \<Rightarrow> translator \<Rightarrow> cell \<times> translator) \<Rightarrow> cell list \<Rightarrow> translator \<Rightarrow> cell list \<times> translator" where
  "executor_map f [] st = ([], st)"
| "executor_map f (x # xs) st =
     (case f x st of (r, st1) \<Rightarrow>
        (case executor_map f xs st1 of (rs, st2) \<Rightarrow> (r # rs, st2)))"

text \<open>The list comprehension of line 144: a missing or blank text becomes \<open>""\<close>.\<close>

definition blank_to_empty :: "cell \<Rightarrow> cell" where
  "blank_to_empty text = (if translatable text then text else Str [])"

definition batch_translate ::
  "provider \<Rightarrow> cell list \<Rightarrow> string \<Rightarrow> string \<Rightarrow> translator \<Rightarrow> cell list \<times> translator" where
  "batch_translate prov texts src_lang target_lang st =
     executor_map (\<lambda>text. translate_text prov text src_lang target_lang)
       (map blank_to_empty texts) st"

text \<open>Provider stubs and the fresh translator, for concrete runs.\<close>

definition failing_provider :: provider where
  "failing_provider log k = None"

definition echo_provider :: provider where
  "echo_provider log k = Some (''ja:'' @ str (fst k))"

definition fresh :: translator where
  "fresh = \<lparr>cache = Map.empty, calls = []\<rparr>"

section \<open>DataProcessor: the table\<close>

text \<open>
  A \<open>DataFrame\<close> is the list of its columns in order, each a name with its cells; in a
  well-formed frame all columns have the same number of cells, the number of rows.
  \<open>df[c]\<close> raises \<open>KeyError\<close> for a column that is not there; \<open>df[c] = values\<close> replaces
  the column or appends it.
\<close>

type_synonym data_frame = "(string \<times> cell list) list"

definition wf_frame :: "nat \<Rightarrow> data_frame \<Rightarrow> bool" where
  "wf_frame n df = list_all (\<lambda>col. length (snd col) = n) df"


definition getitem :: "data_frame \<Rightarrow> string \<Rightarrow> error + cell list" where
  "getitem df c = (case map_of df c of None \<Rightarrow> Inl (KeyError c) | Some col \<Rightarrow> Inr col)"

fun setitem :: "data_frame \<Rightarrow> string \<Rightarrow> cell list \<Rightarrow> data_frame" where
  "setitem [] c col = [(c, col)]"
| "setitem (p # ps) c col = (if fst p = c then (c, col) # ps else p # setitem ps c col)"

definition name_replacements :: "(string \<times> string) list" where
  "name_replacements =
     [(''dhanukakarunasena'', ''Dhanuka''),
      (''malcolmSansen'', ''Malcom''),
      (''shimizu39'', ''Prashanti''),
      (''shimizuSarun'', ''Saran''),
      (''SonSansen'', ''Son''),
      (''HtetSansen'', ''Htet'')]"

text \<open>\<open>Series.replace(name_replacements)\<close> on one cell: a whole-value match is replaced.\<close>

fun replace_cell :: "cell \<Rightarrow> cell" where
  "replace_cell NaN = NaN"
| "replace_cell (Str s) = (case map_of name_replacements s of None \<Rightarrow> Str s | Some r \<Rightarrow> Str r)"

text \<open>The two translated columns are named in Japanese; the names are UTF-8 bytes here.\<close>

definition title_ja :: string where
  "title_ja = [CHR 0xE3, CHR 0x82, CHR 0xBF, CHR 0xE3, CHR 0x82, CHR 0xA4,
               CHR 0xE3, CHR 0x83, CHR 0x88, CHR 0xE3, CHR 0x83, CHR 0xAB]"

definition body_ja :: string where
  "body_ja = [CHR 0xE3, CHR 0x83, CHR 0x9C, CHR 0xE3, CHR 0x83, CHR 0x87,
              CHR 0xE3, CHR 0x82, CHR 0xA3, CHR 0xE3, CHR 0x83, CHR 0xBC]"

text \<open>\<open>formatted_df[c] = self.data_frame[c]\<close>.\<close>

definition copy_column :: "data_frame \<Rightarrow> string \<Rightarrow> data_frame \<Rightarrow> error + data_frame" where
  "copy_column df c formatted_df =
     (case getitem df c of Inl e \<Rightarrow> Inl e | Inr col \<Rightarrow> Inr (setitem formatted_df c col))"

text \<open>\<open>formatted_df[c_ja] = self._batch_translate(self.data_frame[c].tolist())\<close>.\<close>

definition translate_column ::
  "provider \<Rightarrow> data_frame \<Rightarrow> string \<Rightarrow> string \<Rightarrow> data_frame \<Rightarrow> translator
     \<Rightarrow> (error + data_frame) \<times> translator" where
  "translate_column prov df c c_ja formatted_df st =
     (case getitem df c of
        Inl e \<Rightarrow> (Inl e, st)
      | Inr col \<Rightarrow>
          (case batch_translate prov col ''en'' ''ja'' st of
             (translated, st1) \<Rightarrow> (Inr (setitem formatted_df c_ja translated), st1)))"

text \<open>\<open>fillna("")\<close>.\<close>

fun fillna_cell :: "cell \<Rightarrow> cell" where
  "fillna_cell NaN = Str []"
| "fillna_cell (Str s) = Str s"

definition fillna :: "data_frame \<Rightarrow> data_frame" where
  "fillna df = map (\<lambda>col. (fst col, map fillna_cell (snd col))) df"

text \<open>
  \<open>sort_values(by=...)\<close> is pandas code: it computes an indexer with \<open>argsort\<close> on the key
  column and takes the rows in that order. The call passes no \<open>kind\<close>, so it runs pandas'
  default sort (\<open>quicksort\<close>), which pandas documents as not stable. The indexer function is
  a parameter; \<open>argsort_ok\<close> is what every sort kind guarantees of it: a permutation of the
  row numbers that puts the keys in ascending order. The keys are compared as Python compares
  strings; after \<open>fillna\<close> no cell is missing.
\<close>

type_synonym argsort = "string list \<Rightarrow> nat list"


definition take_rows :: "nat list \<Rightarrow> data_frame \<Rightarrow> data_frame" where
  "take_rows indexer df = map (\<lambda>col. (fst col, map (\<lambda>i. snd col ! i) indexer)) df"

definition sort_values :: "argsort \<Rightarrow> string \<Rightarrow> data_frame \<Rightarrow> error + data_frame" where
  "sort_values f by df =
     (case getitem df by of
        Inl e \<Rightarrow> Inl e
      | Inr col \<Rightarrow> Inr (take_rows (f (map str col)) df))"

text \<open>Two indexer functions: a stable one, and one that reverses the rows of equal key.\<close>

definition stable_argsort :: argsort where
  "stable_argsort keys = sort_key (\<lambda>i. keys ! i) [0..<length keys]"


text \<open>
  \<open>process_data\<close>, lines 148 to 173. The result is the new \<open>self.data_frame\<close>, or the
  exception raised, with the translator state reached.
\<close>

definition process_data ::
  "argsort \<Rightarrow> provider \<Rightarrow> data_frame \<Rightarrow> translator \<Rightarrow> (error + data_frame) \<times> translator" where
  "process_data f prov data_frame st =
     (case getitem data_frame ''Assignees'' of
        Inl e \<Rightarrow> (Inl e, st)
      | Inr a \<Rightarrow>
     (let df = setitem data_frame ''Assignees'' (map replace_cell a) in
      case copy_column df ''Assignees'' [] of
        Inl e \<Rightarrow> (Inl e, st)
      | Inr f1 \<Rightarrow>
     (case copy_column df ''Title'' f1 of
        Inl e \<Rightarrow> (Inl e, st)
      | Inr f2 \<Rightarrow>
     (case translate_column prov df ''Title'' title_ja f2 st of
        (Inl e, st1) \<Rightarrow> (Inl e, st1)
      | (Inr f3, st1) \<Rightarrow>
     (case copy_column df ''body'' f3 of
        Inl e \<Rightarrow> (Inl e, st1)
      | Inr f4 \<Rightarrow>
     (case translate_column prov df ''body'' body_ja f4 st1 of
        (Inl e, st2) \<Rightarrow> (Inl e, st2)
      | (Inr f5, st2) \<Rightarrow>
     (case copy_column df ''Repository'' f5 of
        Inl e \<Rightarrow> (Inl e, st2)
      | Inr f6 \<Rightarrow>
     (case copy_column df ''Status'' f6 of
        Inl e \<Rightarrow> (Inl e, st2)
      | Inr f7 \<Rightarrow>
     (case copy_column df ''plan start'' f7 of
        Inl e \<Rightarrow> (Inl e, st2)
      | Inr f8 \<Rightarrow>
     (case copy_column df ''plan finish'' f8 of
        Inl e \<Rightarrow> (Inl e, st2)
      | Inr f9 \<Rightarrow>
     (case copy_column df ''real start'' f9 of
        Inl e \<Rightarrow> (Inl e, st2)
      | Inr f10 \<Rightarrow>
     (case copy_column df ''real finish'' f10 of
        Inl e \<Rightarrow> (Inl e, st2)
      | Inr f11 \<Rightarrow>
     (case sort_values f ''Assignees'' (fillna f11) of
        Inl e \<Rightarrow> (Inl e, st2)
      | Inr sorted_df \<Rightarrow> (Inr sorted_df, st2))))))))))))))"

text \<open>
  \<open>load_data\<close>: \<open>pd.read_csv\<close> is external, so its outcome is the argument: the frame read,
  or \<open>None\<close> when it raises. Any exception is answered by \<open>sys.exit(1)\<close>.
\<close>

definition load_data :: "data_frame option \<Rightarrow> error + data_frame" where
  "load_data read_csv = (case read_csv of None \<Rightarrow> Inl (SystemExit 1) | Some df \<Rightarrow> Inr df)"

section \<open>WeeklyProjectReport\<close>

text \<open>
  \<open>generate_report\<close>: load, process, then the spreadsheet steps of lines 253 to 263
  (authenticate, find or create the spreadsheet and the worksheet, share, upload, format).
  Those steps are the only ones that touch the spreadsheet service; they are the parameter
  \<open>publish\<close>, acting on the state \<open>w\<close> of that service. The result is the exception that
  ended the run, if any, with the states reached.
\<close>

definition generate_report ::
  "argsort \<Rightarrow> provider \<Rightarrow> (data_frame \<Rightarrow> 'w \<Rightarrow> error option \<times> 'w) \<Rightarrow> data_frame option
     \<Rightarrow> translator \<Rightarrow> 'w \<Rightarrow> error option \<times> translator \<times> 'w" where
  "generate_report f prov publish read_csv st w =
     (case load_data read_csv of
        Inl e \<Rightarrow> (Some e, st, w)
      | Inr df \<Rightarrow>
          (case process_data f prov df st of
             (Inl e, st1) \<Rightarrow> (Some e, st1, w)
           | (Inr report, st1) \<Rightarrow>
               (case publish report w of (r, w1) \<Rightarrow> (r, st1, w1))))"

text \<open>
  The exit status of the process: the argument of \<open>sys.exit\<close>, 1 for any other exception
  that reaches the top level (the interpreter prints it, a \<open>KeyError\<close> with its key), and 0
  for a run that ends normally.
\<close>

fun exit_status :: "error option \<Rightarrow> nat" where
  "exit_status None = 0"
| "exit_status (Some (SystemExit n)) = n"
| "exit_status (Some e) = 1"

text \<open>The columns \<open>process_data\<close> reads, in the order it first reads them.\<close>

definition required_columns :: "string list" where
  "required_columns =
     [''Assignees'', ''Title'', ''body'', ''Repository'', ''Status'',
      ''plan start'', ''plan finish'', ''real start'', ''real finish'']"

definition missing_column :: "data_frame \<Rightarrow> string option" where
  "missing_column df = find (\<lambda>c. map_of df c = None) required_columns"

section \<open>Example inputs\<close>


definition example_config :: config where
  "example_config = Map.empty(''email'' \<mapsto> JString ''old@example.org'',
                              ''credential_file'' \<mapsto> JString ''/keys/sa.json'')"

text \<open>A table of three issues, and a table of eighteen issues of one assignee.\<close>

definition example_frame :: data_frame where
  "example_frame =
     [(''Assignees'', [Str ''SonSansen'', Str ''unknown_user'', Str ''HtetSansen'']),
      (''Title'', [Str ''Fix login'', NaN, Str '' '']),
      (''body'', [NaN, Str ''Details'', Str []]),
      (''Repository'', [Str ''web'', Str ''api'', Str ''web'']),
      (''Status'', [Str ''Done'', Str ''Todo'', NaN]),
      (''plan start'', [NaN, NaN, NaN]),
      (''plan finish'', [NaN, NaN, NaN]),
      (''real start'', [NaN, NaN, NaN]),
      (''real finish'', [NaN, NaN, NaN])]"


text \<open>A stub of the spreadsheet steps: it records the report uploaded.\<close>

definition upload_stub :: "data_frame \<Rightarrow> data_frame list \<Rightarrow> error option \<times> data_frame list" where
  "upload_stub report w = (None, w @ [report])"

section \<open>Evaluation of concrete runs\<close>

lemmas run_defs = translate_text_def translatable_def strip_def isspace_def fresh_def
  echo_provider_def failing_provider_def batch_translate_def blank_to_empty_def Let_def

lemmas locator_defs = get_latest_file_def match_here_def isdigit_def strptime_def
  int_of_digits_def digit_val_def days_in_month_def is_leap_def path_join_def
  embedded_date_def invalid_date_name_def


section \<open>Properties of the translator\<close>



text \<open>
  C2, as the code has it. When the provider call for a translatable text fails, the call
  returns the original text and ends normally, the request is in the provider's log, and the
  cache is the one before the call: the key has no entry.
\<close>

theorem translate_text_provider_failure:
  assumes "translatable text" and "cache st (text, src, tgt) = None"
    and "prov (calls st) (text, src, tgt) = None"
  shows "fst (translate_text prov text src tgt st) = text \<and>
         cache (snd (translate_text prov text src tgt st)) = cache st \<and>
         cache (snd (translate_text prov text src tgt st)) (text, src, tgt) = None \<and>
         calls (snd (translate_text prov text src tgt st)) = calls st @ [(text, src, tgt)]"
  using assms by (simp add: translate_text_def)

text \<open>C2 as amended, at \<open>"Hello"\<close> with a provider that always fails.\<close>

theorem translate_text_provider_failure_witness:
  "translatable (Str ''Hello'') \<and>
   fst (translate_text failing_provider (Str ''Hello'') ''en'' ''ja'' fresh) = Str ''Hello'' \<and>
   cache (snd (translate_text failing_provider (Str ''Hello'') ''en'' ''ja'' fresh))
     (Str ''Hello'', ''en'', ''ja'') = None"
proof -
  have h1: "translatable (Str ''Hello'')" by (simp add: translatable_def strip_def isspace_def)
  have h2: "cache fresh (Str ''Hello'', ''en'', ''ja'') = None" by (simp add: fresh_def)
  have h3: "failing_provider (calls fresh) (Str ''Hello'', ''en'', ''ja'') = None"
    by (simp add: failing_provider_def)
  show ?thesis using h1 h2 translate_text_provider_failure[where prov = failing_provider, OF h1 h2 h3] by simp
qed

text \<open>
  C2 as stated does not hold: after the failed call for \<open>"Hello"\<close> the cache has no entry
  holding the original text under the key.
\<close>

theorem failed_translation_not_cached:
  "translatable (Str ''Hello'') \<and>
   failing_provider (calls fresh) (Str ''Hello'', ''en'', ''ja'') = None \<and>
   cache (snd (translate_text failing_provider (Str ''Hello'') ''en'' ''ja'' fresh))
     (Str ''Hello'', ''en'', ''ja'') \<noteq> Some (Str ''Hello'')"
  by (simp add: run_defs)

text \<open>
  C4, as the code has it. When the first call for a translatable text does not fail (the
  key is cached already, or the provider answers), the second call with the same arguments
  returns the same value and leaves the state of the first call, so it sends no request;
  the two calls together send at most one.
\<close>

theorem translate_text_twice:
  assumes "translatable text"
    and "cache st (text, src, tgt) \<noteq> None \<or> prov (calls st) (text, src, tgt) \<noteq> None"
  shows "translate_text prov text src tgt (snd (translate_text prov text src tgt st))
           = (fst (translate_text prov text src tgt st), snd (translate_text prov text src tgt st)) \<and>
         length (calls (snd (translate_text prov text src tgt st))) \<le> Suc (length (calls st))"
proof (cases "cache st (text, src, tgt)")
  case (Some v)
  with assms(1) show ?thesis by (simp add: translate_text_def)
next
  case None
  with assms(2) obtain t where t: "prov (calls st) (text, src, tgt) = Some t" by auto
  with None assms(1) show ?thesis by (simp add: translate_text_def Let_def)
qed

text \<open>C4 as amended, at \<open>"Hello"\<close> with a provider that answers.\<close>

theorem translate_text_twice_witness:
  "translatable (Str ''Hello'') \<and>
   translate_text echo_provider (Str ''Hello'') ''en'' ''ja''
     (snd (translate_text echo_provider (Str ''Hello'') ''en'' ''ja'' fresh))
     = (Str ''ja:Hello'', snd (translate_text echo_provider (Str ''Hello'') ''en'' ''ja'' fresh)) \<and>
   calls (snd (translate_text echo_provider (Str ''Hello'') ''en'' ''ja'' fresh))
     = [(Str ''Hello'', ''en'', ''ja'')]"
proof -
  have h1: "translatable (Str ''Hello'')" by (simp add: translatable_def strip_def isspace_def)
  have h2: "cache fresh (Str ''Hello'', ''en'', ''ja'') \<noteq> None \<or>
            echo_provider (calls fresh) (Str ''Hello'', ''en'', ''ja'') \<noteq> None"
    by (simp add: echo_provider_def)
  have v: "fst (translate_text echo_provider (Str ''Hello'') ''en'' ''ja'' fresh) = Str ''ja:Hello''"
    by (simp add: run_defs)
  have c: "calls (snd (translate_text echo_provider (Str ''Hello'') ''en'' ''ja'' fresh))
     = [(Str ''Hello'', ''en'', ''ja'')]"
    by (simp add: run_defs)
  show ?thesis using h1 v c translate_text_twice[where prov = echo_provider, OF h1 h2] by simp
qed

text \<open>
  C4 as stated does not hold: when the provider fails, nothing is cached, and the second
  call for \<open>"Hello"\<close> sends a second request.
\<close>

theorem failed_translation_called_twice:
  "translatable (Str ''Hello'') \<and>
   calls (snd (translate_text failing_provider (Str ''Hello'') ''en'' ''ja''
            (snd (translate_text failing_provider (Str ''Hello'') ''en'' ''ja'' fresh))))
     = [(Str ''Hello'', ''en'', ''ja''), (Str ''Hello'', ''en'', ''ja'')]"
  by (simp add: run_defs)

section \<open>Properties of batch translation\<close>
















section \<open>Properties of the latest-file locator\<close>

lemma scan_files_invalid:
  "\<exists>f\<in>set names. invalid_date_name f \<Longrightarrow>
   scan_files folder names latest_date latest_file = Inl ValueError"
proof (induction names arbitrary: latest_date latest_file)
  case Nil
  then show ?case by simp
next
  case (Cons n names)
  show ?case
  proof (cases "re_search n")
    case None
    then have "\<not> invalid_date_name n" by (simp add: invalid_date_name_def)
    with Cons.prems have "\<exists>f\<in>set names. invalid_date_name f" by auto
    from Cons.IH[OF this] None show ?thesis by simp
  next
    case (Some g)
    show ?thesis
    proof (cases "strptime g")
      case (Inl e)
      then have "e = ValueError" by (auto simp: strptime_def Let_def split: if_splits)
      with Some Inl show ?thesis by simp
    next
      case (Inr d)
      with Some have "\<not> invalid_date_name n" by (simp add: invalid_date_name_def)
      with Cons.prems have "\<exists>f\<in>set names. invalid_date_name f" by auto
      from Cons.IH[OF this] Some Inr show ?thesis by simp
    qed
  qed
qed

text \<open>
  C9. A directory that holds a file name matching the pattern with a date that is not a
  calendar date makes \<open>get_latest_file\<close> raise \<open>ValueError\<close>: it returns neither a path
  nor \<open>None\<close>.
\<close>

theorem get_latest_file_invalid_date:
  assumes "map_of fs folder = Some (Directory names)"
    and "\<exists>f\<in>set names. invalid_date_name f"
  shows "get_latest_file fs folder = Inl ValueError"
  using assms by (simp add: get_latest_file_def scan_files_invalid)

text \<open>C9 at a directory holding \<open>project_2024-13-01.csv\<close>.\<close>

theorem get_latest_file_invalid_date_witness:
  "re_search ''project_2024-13-01.csv'' = Some ''2024-13-01'' \<and>
   strptime ''2024-13-01'' = Inl ValueError \<and>
   get_latest_file [(''extract'', Directory [''project_2024-13-01.csv''])] ''extract''
     = Inl ValueError"
proof -
  have h1: "map_of [(''extract'', Directory [''project_2024-13-01.csv''])] ''extract''
    = Some (Directory [''project_2024-13-01.csv''])" by simp
  have r: "re_search ''project_2024-13-01.csv'' = Some ''2024-13-01''"
    by (simp add: locator_defs)
  have s: "strptime ''2024-13-01'' = Inl ValueError"
    by (simp add: locator_defs)
  have h2: "\<exists>f\<in>set [''project_2024-13-01.csv'']. invalid_date_name f"
    using r s by (simp add: invalid_date_name_def)
  show ?thesis using r s get_latest_file_invalid_date[OF h1 h2] by simp
qed






section \<open>Properties of the configuration store\<close>

text \<open>
  C10. \<open>save_config\<close> fails only when the stored file cannot be parsed, and then writes
  nothing. Otherwise the configuration it writes differs from the one \<open>load_config\<close> read
  only at the fields given truthy values: an \<open>email\<close> or \<open>credential_file\<close> argument that is
  \<open>None\<close> or empty leaves the stored value of that field as it was, a truthy one is stored,
  and every other key is unchanged.
\<close>

theorem save_config_frame:
  "(file = Unparsable \<longrightarrow> save_config email credential_file file = Inl JSONDecodeError) \<and>
   (file \<noteq> Unparsable \<longrightarrow>
      (\<exists>config config'.
         load_config file = Inr config \<and>
         save_config email credential_file file = Inr (Stored config') \<and>
         (\<not> truthy email \<longrightarrow> config' ''email'' = config ''email'') \<and>
         (\<not> truthy credential_file \<longrightarrow> config' ''credential_file'' = config ''credential_file'') \<and>
         (\<forall>s. email = Some s \<and> s \<noteq> [] \<longrightarrow> config' ''email'' = Some (JString s)) \<and>
         (\<forall>s. credential_file = Some s \<and> s \<noteq> [] \<longrightarrow> config' ''credential_file'' = Some (JString s)) \<and>
         (\<forall>k. k \<noteq> ''email'' \<and> k \<noteq> ''credential_file'' \<longrightarrow> config' k = config k)))"
proof (intro conjI impI)
  assume "file = Unparsable"
  then show "save_config email credential_file file = Inl JSONDecodeError"
    by (simp add: save_config_def load_config_def)
next
  assume "file \<noteq> Unparsable"
  then obtain config where c: "load_config file = Inr config"
    by (cases "file") (simp_all add: load_config_def)
  have k: "assign_if_truthy k a m k' = (if k' = k \<and> truthy a then map_option JString a else m k')"
    for k a m k'
    by (cases a) auto
  show "\<exists>config config'.
         load_config file = Inr config \<and>
         save_config email credential_file file = Inr (Stored config') \<and>
         (\<not> truthy email \<longrightarrow> config' ''email'' = config ''email'') \<and>
         (\<not> truthy credential_file \<longrightarrow> config' ''credential_file'' = config ''credential_file'') \<and>
         (\<forall>s. email = Some s \<and> s \<noteq> [] \<longrightarrow> config' ''email'' = Some (JString s)) \<and>
         (\<forall>s. credential_file = Some s \<and> s \<noteq> [] \<longrightarrow> config' ''credential_file'' = Some (JString s)) \<and>
         (\<forall>k. k \<noteq> ''email'' \<and> k \<noteq> ''credential_file'' \<longrightarrow> config' k = config k)"
    using c by (simp add: save_config_def k)
qed

text \<open>
  C10 on a stored configuration: saving only an email keeps the credential file, and saving
  a credential file with an empty email keeps the email.
\<close>

theorem save_config_frame_witness:
  "Stored example_config \<noteq> Unparsable \<and>
   (\<exists>config'. save_config (Some ''new@example.org'') None (Stored example_config) = Inr (Stored config') \<and>
      config' ''credential_file'' = Some (JString ''/keys/sa.json'') \<and>
      config' ''email'' = Some (JString ''new@example.org'')) \<and>
   (\<exists>config'. save_config (Some []) (Some ''/keys/new.json'') (Stored example_config) = Inr (Stored config') \<and>
      config' ''email'' = Some (JString ''old@example.org'') \<and>
      config' ''credential_file'' = Some (JString ''/keys/new.json''))"
  using save_config_frame[of "Stored example_config" "Some ''new@example.org''" None]
    save_config_frame[of "Stored example_config" "Some []" "Some ''/keys/new.json''"]
  by (simp add: example_config_def load_config_def) blast

section \<open>Properties of the table processor\<close>

lemma map_of_setitem:
  "map_of (setitem df c col) c' = (if c' = c then Some col else map_of df c')"
  by (induction df) auto

lemma getitem_setitem:
  "getitem (setitem df c col) c' = (if c' = c then Inr col else getitem df c')"
  by (simp add: getitem_def map_of_setitem)

lemma wf_frame_setitem:
  "wf_frame n df \<Longrightarrow> length col = n \<Longrightarrow> wf_frame n (setitem df c col)"
  by (induction df) (auto simp: wf_frame_def)



lemma copy_column_missing:
  "map_of df c = None \<Longrightarrow> copy_column df c fdf = Inl (KeyError c)"
  by (simp add: copy_column_def getitem_def)


lemma translate_column_missing:
  "map_of df c = None \<Longrightarrow> translate_column prov df c c_ja fdf st = (Inl (KeyError c), st)"
  by (simp add: translate_column_def getitem_def)



lemma process_data_missing:
  "missing_column df = Some c \<Longrightarrow> fst (process_data f prov df st) = Inl (KeyError c)"
  unfolding missing_column_def required_columns_def process_data_def
  by (auto simp: getitem_def copy_column_def translate_column_def map_of_setitem Let_def
      split_beta title_ja_def body_ja_def split: if_splits)











section \<open>Properties of the pipeline\<close>

text \<open>
  C8. When the CSV cannot be read, \<open>generate_report\<close> ends with \<open>sys.exit(1)\<close>. When the
  table read lacks a column that \<open>process_data\<close> reads, it ends with the \<open>KeyError\<close> of the
  first such column, which names the column, and the exit status is not zero. In both cases
  the state of the spreadsheet service is the one before the run: nothing is published.
\<close>

theorem generate_report_fatal:
  "(read_csv = None \<longrightarrow>
      generate_report f prov publish read_csv st w = (Some (SystemExit 1), st, w) \<and>
      exit_status (Some (SystemExit 1)) \<noteq> 0) \<and>
   (read_csv = Some df \<and> (\<exists>c\<in>set required_columns. map_of df c = None) \<longrightarrow>
      (\<exists>c st'. missing_column df = Some c \<and> c \<in> set required_columns \<and> map_of df c = None \<and>
         generate_report f prov publish read_csv st w = (Some (KeyError c), st', w) \<and>
         exit_status (Some (KeyError c)) \<noteq> 0))"
proof (intro conjI impI)
  assume "read_csv = None"
  then show "generate_report f prov publish read_csv st w = (Some (SystemExit 1), st, w)"
    by (simp add: generate_report_def load_data_def)
next
  show "exit_status (Some (SystemExit 1)) \<noteq> 0" by simp
next
  assume a: "read_csv = Some df \<and> (\<exists>c\<in>set required_columns. map_of df c = None)"
  then have "missing_column df \<noteq> None" by (auto simp: missing_column_def find_None_iff)
  then obtain c where c: "missing_column df = Some c" by auto
  then have c1: "c \<in> set required_columns" and c2: "map_of df c = None"
    unfolding missing_column_def by (auto simp: find_Some_iff)
  from process_data_missing[OF c, of f prov st]
  obtain st' where "process_data f prov df st = (Inl (KeyError c), st')"
    by (cases "process_data f prov df st") simp
  with a have "generate_report f prov publish read_csv st w = (Some (KeyError c), st', w)"
    by (simp add: generate_report_def load_data_def)
  with c c1 c2
  show "\<exists>c st'. missing_column df = Some c \<and> c \<in> set required_columns \<and> map_of df c = None \<and>
         generate_report f prov publish read_csv st w = (Some (KeyError c), st', w) \<and>
         exit_status (Some (KeyError c)) \<noteq> 0"
    by auto
qed

text \<open>C8 on an unreadable CSV and on a table that has lost its \<open>body\<close> column.\<close>

theorem generate_report_fatal_witness:
  "(\<exists>c\<in>set required_columns. map_of (take 2 example_frame) c = None) \<and>
   generate_report stable_argsort echo_provider upload_stub None fresh []
     = (Some (SystemExit 1), fresh, []) \<and>
   fst (generate_report stable_argsort echo_provider upload_stub (Some (take 2 example_frame)) fresh [])
     = Some (KeyError ''body'') \<and>
   snd (snd (generate_report stable_argsort echo_provider upload_stub (Some (take 2 example_frame)) fresh []))
     = [] \<and>
   exit_status (Some (KeyError ''body'')) = 1"
proof -
  have m: "missing_column (take 2 example_frame) = Some ''body''"
    by (simp add: missing_column_def required_columns_def example_frame_def)
  have h: "\<exists>c\<in>set required_columns. map_of (take 2 example_frame) c = None"
    by (simp add: required_columns_def example_frame_def)
  from h m
    generate_report_fatal[of None stable_argsort echo_provider upload_stub fresh "[]"]
    generate_report_fatal[of "Some (take 2 example_frame)" stable_argsort echo_provider
      upload_stub fresh "[]" "take 2 example_frame"]
  show ?thesis by auto
qed

end
